theory Spec2Isabelle
  imports Main
begin

section \<open>JSON values and envelopes\<close>

text \<open>
  The adapter exchanges JSON text with its client. The text codec (\<open>JSON.parse\<close>,
  \<open>JSON.stringify\<close>) belongs to the runtime; a message is modelled by the value the text
  denotes. An object is a list of properties in insertion order.
\<close>

datatype json =
    JNull
  | JBool bool
  | JNumber int
  | JString string
  | JArray "json list"
  | JObject "(string \<times> json) list"

text \<open>Property read \<open>obj[key]\<close>; \<open>None\<close> is JavaScript's \<open>undefined\<close>.\<close>

fun jget :: "json \<Rightarrow> string \<Rightarrow> json option" where
  "jget (JObject kvs) k = map_of kvs k"
| "jget JNull k = None"
| "jget (JBool b) k = None"
| "jget (JNumber n) k = None"
| "jget (JString s) k = None"
| "jget (JArray xs) k = None"

text \<open>\<open>JSON.stringify\<close> leaves out a property whose value is \<open>undefined\<close>.\<close>

definition opt_prop :: "string \<Rightarrow> json option \<Rightarrow> (string \<times> json) list" where
  "opt_prop k v = (case v of None \<Rightarrow> [] | Some j \<Rightarrow> [(k, j)])"

text \<open>
  A value thrown by the runtime or by the facade (a rejected promise). The code reads only
  its \<open>message\<close>, through \<open>error?.message\<close>, which is \<open>undefined\<close> when the thrown value
  carries none.
\<close>

datatype thrown = Thrown (thrown_message: "string option")

text \<open>
  The interfaces of the source. Isabelle record fields share one name space, so the
  fields carry the interface as a prefix: \<open>cmd_\<close> for \<open>CDPCommand\<close>, \<open>ev_\<close> for
  \<open>CDPEvent\<close>, \<open>ti_\<close> for \<open>chrome.debugger.TargetInfo\<close>. An optional field
  (\<open>sessionId?\<close>) and a field of type \<open>any\<close> are options.

  A command is the object that \<open>JSON.parse\<close> returns, and nothing checks it against the
  interface: whatever other properties the request holds (a \<open>result\<close>, an \<open>error\<close>, anything)
  are kept in \<open>cmd_rest\<close>, and the object spread carries them into the response.
\<close>

record CDPCommand =
  cmd_id :: int
  cmd_method :: string
  cmd_params :: "json option"
  cmd_sessionId :: "string option"
  cmd_rest :: "(string \<times> json) list"

record ErrorObject =
  message :: "string option"

record CDPCommandResponse = CDPCommand +
  error :: "ErrorObject option"
  result :: "json option"

record CDPEvent =
  ev_method :: string
  ev_params :: "json option"
  ev_sessionId :: "string option"

text \<open>
  \<open>chrome.debugger.Debuggee\<close> and \<open>chrome.debugger.TargetInfo\<close> are declared by the host's
  type package. The code reads \<open>tabId\<close>, \<open>id\<close> and \<open>attached\<close> and writes \<open>targetId\<close> and
  \<open>canAccessOpener\<close>; every other property of a target (type, title, url, ...) is carried
  along by the object spread and kept in \<open>ti_rest\<close>.
\<close>

record Debuggee =
  tabId :: "int option"

record TargetInfo =
  ti_id :: string
  ti_tabId :: "int option"
  ti_attached :: bool
  ti_targetId :: "string option"
  ti_canAccessOpener :: "bool option"
  ti_rest :: "(string \<times> json) list"

definition target_json :: "TargetInfo \<Rightarrow> json" where
  "target_json t = JObject
     ([(''id'', JString (ti_id t))]
      @ opt_prop ''tabId'' (map_option JNumber (ti_tabId t))
      @ [(''attached'', JBool (ti_attached t))]
      @ opt_prop ''targetId'' (map_option JString (ti_targetId t))
      @ opt_prop ''canAccessOpener'' (map_option JBool (ti_canAccessOpener t))
      @ ti_rest t)"

definition stringify_event :: "CDPEvent \<Rightarrow> json" where
  "stringify_event e = JObject
     ([(''method'', JString (ev_method e))]
      @ opt_prop ''params'' (ev_params e)
      @ opt_prop ''sessionId'' (map_option JString (ev_sessionId e)))"

definition error_json :: "ErrorObject \<Rightarrow> json" where
  "error_json e = JObject (opt_prop ''message'' (map_option JString (message e)))"

text \<open>
  The properties that the fields of a response stand for. An object holds one property of
  a name: an entry of \<open>cmd_rest\<close> of one of these names is not a further property.
\<close>

definition named_props :: "string list" where
  "named_props = [''id'', ''method'', ''params'', ''sessionId'', ''error'', ''result'']"

definition stringify_response :: "CDPCommandResponse \<Rightarrow> json" where
  "stringify_response r = JObject
     ([(''id'', JNumber (cmd_id r)), (''method'', JString (cmd_method r))]
      @ opt_prop ''params'' (cmd_params r)
      @ opt_prop ''sessionId'' (map_option JString (cmd_sessionId r))
      @ opt_prop ''error'' (map_option error_json (error r))
      @ opt_prop ''result'' (result r)
      @ filter (\<lambda>kv. fst kv \<notin> set named_props) (cmd_rest r))"

text \<open>
  The object spread \<open>{...command, error: e, result: r}\<close>: every property of the request,
  with \<open>error\<close> and \<open>result\<close> set to \<open>e\<close> and \<open>r\<close>, whatever the request holds under these
  names.
\<close>

definition spread :: "CDPCommand \<Rightarrow> ErrorObject option \<Rightarrow> json option \<Rightarrow> CDPCommandResponse" where
  "spread command e r =
     \<lparr>cmd_id = cmd_id command, cmd_method = cmd_method command,
      cmd_params = cmd_params command, cmd_sessionId = cmd_sessionId command,
      cmd_rest = cmd_rest command, error = e, result = r\<rparr>"

text \<open>
  The object spread \<open>{...command, error: e}\<close> of the \<open>catch\<close> branch of \<open>send\<close>: only
  \<open>error\<close> is set, so the response holds as \<open>result\<close> what the request holds under that
  name.
\<close>

definition spread_error :: "CDPCommand \<Rightarrow> ErrorObject \<Rightarrow> CDPCommandResponse" where
  "spread_error command e =
     \<lparr>cmd_id = cmd_id command, cmd_method = cmd_method command,
      cmd_params = cmd_params command, cmd_sessionId = cmd_sessionId command,
      cmd_rest = cmd_rest command, error = Some e,
      result = map_of (cmd_rest command) ''result''\<rparr>"

section \<open>The adapter and its environment\<close>

text \<open>
  What the adapter does to the outside: it calls the client's two callbacks and it arms
  timers. \<open>outbox\<close> lists the callback calls made so far, oldest first; \<open>timers\<close> lists the
  armed timers with the time they are due, in the order they were armed.
\<close>

datatype action = OnMessage json | OnClose

datatype task = Deliver CDPCommandResponse | CloseTask

text \<open>
  A call of the facade whose promise has not settled yet, with what the awaiting method
  needs to go on: \<open>send\<close> awaits \<open>sendCommand\<close> holding the command, \<open>close\<close> awaits
  \<open>detach\<close>.
\<close>

datatype call = SendCommand CDPCommand | Detach

text \<open>
  The fields of \<open>ExtensionDebuggerTransport\<close> (\<open>_sessionId\<close> is \<open>sessionId\<close>), with the
  environment. \<open>onmessage\<close> and \<open>onclose\<close> say whether the client has installed the
  callback; the client sets them, and \<open>delay\<close>, from outside.
\<close>

record world =
  target :: TargetInfo
  debugee :: Debuggee
  delay :: nat
  sessionId :: string
  onmessage :: bool
  onclose :: bool
  timers :: "(nat \<times> task) list"
  clock :: nat
  awaiting :: "call list"
  outbox :: "action list"

definition setTimeout :: "world \<Rightarrow> task \<Rightarrow> nat \<Rightarrow> world" where
  "setTimeout w t d = w\<lparr>timers := timers w @ [(clock w + d, t)]\<rparr>"

text \<open>\<open>_emit\<close>: \<open>this?.onmessage?.call(null, JSON.stringify(event))\<close>.\<close>

definition emit :: "world \<Rightarrow> CDPEvent \<Rightarrow> world" where
  "emit w event =
     (if onmessage w then w\<lparr>outbox := outbox w @ [OnMessage (stringify_event event)]\<rparr> else w)"

text \<open>The timer callback of \<open>_delaySend\<close>, run when the timer fires.\<close>

definition deliver :: "world \<Rightarrow> CDPCommandResponse \<Rightarrow> world" where
  "deliver w response =
     (if onmessage w then w\<lparr>outbox := outbox w @ [OnMessage (stringify_response response)]\<rparr>
      else w)"

definition delaySend :: "world \<Rightarrow> CDPCommandResponse \<Rightarrow> world" where
  "delaySend w response = setTimeout w (Deliver response) (delay w)"

definition emitTargetCreated :: "world \<Rightarrow> world" where
  "emitTargetCreated w = emit w
     \<lparr>ev_method = ''Target.targetCreated'',
      ev_params = Some (JObject [(''targetInfo'', target_json (target w))]),
      ev_sessionId = None\<rparr>"

definition emitTargetAttached :: "world \<Rightarrow> world" where
  "emitTargetAttached w = emit w
     \<lparr>ev_method = ''Target.attachedToTarget'',
      ev_params = Some (JObject
        [(''targetInfo'', target_json (target w)),
         (''sessionId'', JString (sessionId w)),
         (''waitingForDebugger'', JBool False)]),
      ev_sessionId = None\<rparr>"

definition emitTargetDetached :: "world \<Rightarrow> world" where
  "emitTargetDetached w = emit w
     \<lparr>ev_method = ''Target.detachedFromTarget'',
      ev_params = Some (JObject
        [(''targetId'', JString (ti_id (target w))),
         (''sessionId'', JString (sessionId w))]),
      ev_sessionId = None\<rparr>"

text \<open>\<open>_closeTarget\<close>: the detach event, then \<open>this.onclose?.call(null)\<close>.\<close>

definition closeTarget :: "world \<Rightarrow> world" where
  "closeTarget w =
     (let w' = emitTargetDetached w
      in if onclose w' then w'\<lparr>outbox := outbox w' @ [OnClose]\<rparr> else w')"

definition handleTargetCommand :: "world \<Rightarrow> CDPCommand \<Rightarrow> world" where
  "handleTargetCommand w command =
     (let response = spread command None (Some (JObject []))
      in if cmd_method command = ''Target.getBrowserContexts'' then
           delaySend w (response\<lparr>result := Some (JObject [(''browserContextIds'', JArray [])])\<rparr>)
         else if cmd_method command = ''Target.setDiscoverTargets'' then
           delaySend (emitTargetCreated w) (response\<lparr>result := Some JNull\<rparr>)
         else if cmd_method command = ''Target.attachToTarget'' then
           delaySend (emitTargetAttached w)
             (response\<lparr>result := Some (JObject [(''sessionId'', JString (sessionId w))])\<rparr>)
         else if cmd_method command = ''Target.activateTarget'' then
           delaySend w (response\<lparr>result := Some JNull\<rparr>)
         else if cmd_method command = ''Target.closeTarget'' then
           delaySend (setTimeout w CloseTask (delay w))
             (response\<lparr>result := Some (JObject [(''success'', JBool True)])\<rparr>)
         else delaySend w response)"

definition targetCommands :: "string list" where
  "targetCommands =
     [''Target.getBrowserContexts'', ''Target.setDiscoverTargets'', ''Target.attachToTarget'',
      ''Target.activateTarget'', ''Target.closeTarget'']"

text \<open>
  \<open>send\<close> and \<open>close\<close> are asynchronous: each awaits one call of the facade. Each is
  modelled in two parts. The first runs when the method is called, up to the \<open>await\<close>: it
  places the call of the facade among \<open>awaiting\<close>. The second (\<open>_settled\<close>) runs when the
  promise of the facade settles, on the world of that moment, with the outcome: \<open>Inr\<close> the
  value the promise resolves to (\<open>None\<close> when it resolves to \<open>undefined\<close>), \<open>Inl\<close> the value
  it rejects with. A result \<open>Inl\<close> is the rejection of the method's own promise. \<open>send\<close>
  takes the outcome of \<open>JSON.parse(message)\<close> as its argument.
\<close>

definition send :: "world \<Rightarrow> thrown + CDPCommand \<Rightarrow> thrown + world" where
  "send w parsed =
     (case parsed of
        Inl e \<Rightarrow> Inl e
      | Inr command \<Rightarrow>
          if cmd_method command \<in> set targetCommands then
            Inr (handleTargetCommand w command)
          else Inr (w\<lparr>awaiting := awaiting w @ [SendCommand command]\<rparr>))"

definition send_settled :: "world \<Rightarrow> CDPCommand \<Rightarrow> thrown + json option \<Rightarrow> world" where
  "send_settled w command outcome =
     (case outcome of
        Inr res \<Rightarrow> delaySend w (spread command None res)
      | Inl err \<Rightarrow>
          delaySend w (spread_error command \<lparr>message = thrown_message err\<rparr>))"

definition close :: "world \<Rightarrow> world" where
  "close w = w\<lparr>awaiting := awaiting w @ [Detach]\<rparr>"

definition close_settled :: "world \<Rightarrow> thrown option \<Rightarrow> thrown + world" where
  "close_settled w outcome =
     (case outcome of
        Some e \<Rightarrow> Inl e
      | None \<Rightarrow> Inr (closeTarget w))"

text \<open>The two listeners the constructor registers on the facade's streams.\<close>

definition onEvent :: "world \<Rightarrow> Debuggee \<Rightarrow> string \<Rightarrow> json option \<Rightarrow> world" where
  "onEvent w source method params =
     (let event = \<lparr>ev_method = method, ev_params = params, ev_sessionId = Some (sessionId w)\<rparr>
      in if tabId source = ti_tabId (target w) then emit w event else w)"

definition onDetach :: "world \<Rightarrow> Debuggee \<Rightarrow> world" where
  "onDetach w source =
     (if tabId source = ti_tabId (target w) then closeTarget w else w)"

text \<open>
  The constructor. No callback is installed, no timer is armed; \<open>delay\<close> is
  \<open>0.04 * 1000\<close> milliseconds.
\<close>

definition constructor :: "TargetInfo \<Rightarrow> world" where
  "constructor t =
     \<lparr>target = t, debugee = \<lparr>tabId = ti_tabId t\<rparr>, delay = 40, sessionId = ti_id t,
      onmessage = False, onclose = False, timers = [], clock = 0, awaiting = [],
      outbox = []\<rparr>"

definition getTargetInfo :: "thrown + TargetInfo list \<Rightarrow> Debuggee \<Rightarrow> thrown + TargetInfo" where
  "getTargetInfo getTargets d =
     (case getTargets of
        Inl e \<Rightarrow> Inl e
      | Inr targets \<Rightarrow>
          (case map (\<lambda>t. t\<lparr>ti_targetId := Some (ti_id t), ti_canAccessOpener := Some False\<rparr>)
                  (filter (\<lambda>t. ti_attached t \<and> ti_tabId t = tabId d) targets) of
             [] \<Rightarrow> Inl (Thrown (Some ''target not found''))
           | t # rest \<Rightarrow> Inr t))"

text \<open>
  \<open>_initialize\<close> rebinds the global \<open>Function\<close>: to the serializer the caller gave, or,
  when \<open>new Function()\<close> throws, to a factory of functions that do nothing.
\<close>

datatype 'f function_constructor = Native | Supplied 'f | NoopFactory

definition initialize :: "'f option \<Rightarrow> bool \<Rightarrow> 'f function_constructor \<Rightarrow> 'f function_constructor" where
  "initialize functionSerializer new_Function_throws current =
     (case functionSerializer of
        Some f \<Rightarrow> Supplied f
      | None \<Rightarrow> if new_Function_throws then NoopFactory else current)"

definition create ::
  "thrown option \<Rightarrow> thrown + TargetInfo list \<Rightarrow> int \<Rightarrow> 'f option \<Rightarrow> bool
     \<Rightarrow> 'f function_constructor \<Rightarrow> thrown + world \<times> 'f function_constructor" where
  "create attach getTargets tab functionSerializer new_Function_throws current =
     (let d = \<lparr>tabId = Some tab\<rparr>
      in case attach of
           Some e \<Rightarrow> Inl e
         | None \<Rightarrow>
             (case getTargetInfo getTargets d of
                Inl e \<Rightarrow> Inl e
              | Inr t \<Rightarrow>
                  Inr (constructor t,
                       initialize functionSerializer new_Function_throws current)))"

section \<open>Timers\<close>

text \<open>
  The timer that fires next is the one due first; among timers due at the same time, the
  one armed first.
\<close>

fun earliest :: "(nat \<times> task) list \<Rightarrow> (nat \<times> task) option" where
  "earliest [] = None"
| "earliest (x # xs) =
     (case earliest xs of
        None \<Rightarrow> Some x
      | Some y \<Rightarrow> if fst x \<le> fst y then Some x else Some y)"

text \<open>
  The callback of a timer. The one armed by \<open>Target.closeTarget\<close> calls \<open>this.close()\<close>
  and drops its promise.
\<close>

definition run_task :: "world \<Rightarrow> task \<Rightarrow> world" where
  "run_task w t =
     (case t of
        Deliver response \<Rightarrow> deliver w response
      | CloseTask \<Rightarrow> close w)"

definition fire :: "world \<Rightarrow> world" where
  "fire w =
     (case earliest (timers w) of
        None \<Rightarrow> w
      | Some (due, t) \<Rightarrow>
          run_task (w\<lparr>timers := remove1 (due, t) (timers w), clock := max (clock w) due\<rparr>) t)"

text \<open>
  The promise of the \<open>i\<close>-th awaited call settles. A rejection of \<open>close\<close> reaches the
  caller of \<open>close\<close>, not the adapter: the world stays as it is.
\<close>

definition settle :: "world \<Rightarrow> nat \<Rightarrow> thrown + json option \<Rightarrow> world" where
  "settle w i outcome =
     (if i < length (awaiting w) then
        (let w' = w\<lparr>awaiting := take i (awaiting w) @ drop (Suc i) (awaiting w)\<rparr>
         in case awaiting w ! i of
              SendCommand command \<Rightarrow> send_settled w' command outcome
            | Detach \<Rightarrow>
                (case close_settled w' (case outcome of Inl e \<Rightarrow> Some e | Inr v \<Rightarrow> None) of
                   Inl e \<Rightarrow> w'
                 | Inr w'' \<Rightarrow> w''))
      else w)"

section \<open>Runs\<close>

text \<open>
  What can happen to an adapter: its client calls \<open>send\<close> or \<open>close\<close> or sets a field, the
  host notifies an event or a detach, a promise of the facade settles, a timer fires. A
  call of \<open>send\<close> that rejects leaves the world as it is.
\<close>

datatype input =
    Send "thrown + CDPCommand"
  | Close
  | Settle nat "thrown + json option"
  | HostEvent Debuggee string "json option"
  | HostDetach Debuggee
  | Fire
  | SetOnmessage bool
  | SetOnclose bool
  | SetDelay nat

definition step :: "world \<Rightarrow> input \<Rightarrow> world" where
  "step w i =
     (case i of
        Send parsed \<Rightarrow> (case send w parsed of Inl e \<Rightarrow> w | Inr w' \<Rightarrow> w')
      | Close \<Rightarrow> close w
      | Settle k outcome \<Rightarrow> settle w k outcome
      | HostEvent source method params \<Rightarrow> onEvent w source method params
      | HostDetach source \<Rightarrow> onDetach w source
      | Fire \<Rightarrow> fire w
      | SetOnmessage b \<Rightarrow> w\<lparr>onmessage := b\<rparr>
      | SetOnclose b \<Rightarrow> w\<lparr>onclose := b\<rparr>
      | SetDelay d \<Rightarrow> w\<lparr>delay := d\<rparr>)"

definition run :: "world \<Rightarrow> input list \<Rightarrow> world" where
  "run w inputs = foldl step w inputs"


section \<open>A running example\<close>

text \<open>
  The scenario of the specification: tab 7, whose target the facade lists as
  \<open>{id: "A1", tabId: 7, attached: true}\<close>; \<open>demo\<close> is the adapter \<open>create\<close> builds for it,
  once the client has installed both callbacks.
\<close>

definition tab7 :: TargetInfo where
  "tab7 = \<lparr>ti_id = ''A1'', ti_tabId = Some 7, ti_attached = True, ti_targetId = None,
     ti_canAccessOpener = None, ti_rest = []\<rparr>"

definition demo :: world where
  "demo = (constructor (tab7\<lparr>ti_targetId := Some ''A1'', ti_canAccessOpener := Some False\<rparr>))
     \<lparr>onmessage := True, onclose := True\<rparr>"


text \<open>
  \<open>replies r command v\<close>: the message that the response \<open>r\<close> is delivered as echoes the
  \<open>id\<close>, \<open>method\<close> and \<open>params\<close> of \<open>command\<close>, holds the result \<open>v\<close> and holds no error.
\<close>

definition replies :: "CDPCommandResponse \<Rightarrow> CDPCommand \<Rightarrow> json \<Rightarrow> bool" where
  "replies r command v =
     (jget (stringify_response r) ''id'' = Some (JNumber (cmd_id command))
      \<and> jget (stringify_response r) ''method'' = Some (JString (cmd_method command))
      \<and> jget (stringify_response r) ''params'' = cmd_params command
      \<and> jget (stringify_response r) ''result'' = Some v
      \<and> jget (stringify_response r) ''error'' = None)"

text \<open>The responses that armed timers will hand over, in the order they were armed.\<close>

fun pending_responses :: "(nat \<times> task) list \<Rightarrow> CDPCommandResponse list" where
  "pending_responses [] = []"
| "pending_responses ((due, Deliver r) # ts) = r # pending_responses ts"
| "pending_responses ((due, CloseTask) # ts) = pending_responses ts"





text \<open>How many events of a given method the client has been handed.\<close>

definition events_named :: "string \<Rightarrow> action list \<Rightarrow> nat" where
  "events_named name acts =
     length (filter (\<lambda>a. case a of
                OnMessage m \<Rightarrow> jget m ''id'' = None \<and> jget m ''method'' = Some (JString name)
              | OnClose \<Rightarrow> False) acts)"

definition navigate :: CDPCommand where
  "navigate = \<lparr>cmd_id = 2, cmd_method = ''Page.navigate'',
     cmd_params = Some (JObject [(''url'', JString ''https://example.com'')]),
     cmd_sessionId = Some ''A1'', cmd_rest = []\<rparr>"

definition target_command :: "int \<Rightarrow> string \<Rightarrow> CDPCommand" where
  "target_command n m =
     \<lparr>cmd_id = n, cmd_method = m, cmd_params = Some (JObject []), cmd_sessionId = None,
      cmd_rest = []\<rparr>"

text \<open>A request that holds stale \<open>error\<close> and \<open>result\<close> properties of its own.\<close>

definition stale_navigate :: CDPCommand where
  "stale_navigate = navigate\<lparr>cmd_rest :=
     [(''error'', JObject [(''message'', JString ''old'')]),
      (''result'', JObject [(''stale'', JBool True)])]\<rparr>"

section \<open>What a delivered message holds\<close>

lemma map_of_filter_out:
  "P k \<Longrightarrow> map_of (filter (\<lambda>kv. \<not> P (fst kv)) xs) k = None"
  by (induction xs) auto

lemma map_of_filter_in:
  "\<not> P k \<Longrightarrow> map_of (filter (\<lambda>kv. \<not> P (fst kv)) xs) k = map_of xs k"
  by (induction xs) auto

lemma rest_named:
  "k \<in> set named_props \<Longrightarrow>
     map_of (filter (\<lambda>kv. fst kv \<notin> set named_props) xs) k = None"
  using map_of_filter_out [of "\<lambda>k. k \<in> set named_props" k xs] by simp

lemma rest_other:
  "k \<notin> set named_props \<Longrightarrow>
     map_of (filter (\<lambda>kv. fst kv \<notin> set named_props) xs) k = map_of xs k"
  using map_of_filter_in [of "\<lambda>k. k \<in> set named_props" k xs] by simp

lemma rest_names:
  "map_of (filter (\<lambda>kv. fst kv \<notin> set named_props) xs) ''id'' = None"
  "map_of (filter (\<lambda>kv. fst kv \<notin> set named_props) xs) ''method'' = None"
  "map_of (filter (\<lambda>kv. fst kv \<notin> set named_props) xs) ''params'' = None"
  "map_of (filter (\<lambda>kv. fst kv \<notin> set named_props) xs) ''sessionId'' = None"
  "map_of (filter (\<lambda>kv. fst kv \<notin> set named_props) xs) ''error'' = None"
  "map_of (filter (\<lambda>kv. fst kv \<notin> set named_props) xs) ''result'' = None"
  by (rule rest_named, simp add: named_props_def)+

lemma jget_stringify_response:
  "jget (stringify_response r) ''id'' = Some (JNumber (cmd_id r))"
  "jget (stringify_response r) ''method'' = Some (JString (cmd_method r))"
  "jget (stringify_response r) ''params'' = cmd_params r"
  "jget (stringify_response r) ''sessionId'' = map_option JString (cmd_sessionId r)"
  "jget (stringify_response r) ''error'' = map_option error_json (error r)"
  "jget (stringify_response r) ''result'' = result r"
  by (simp_all add: stringify_response_def opt_prop_def map_add_def rest_names
      split: option.splits)

lemma jget_stringify_response_other:
  assumes "k \<notin> set named_props"
  shows "jget (stringify_response r) k = map_of (cmd_rest r) k"
proof -
  have "k \<noteq> ''id''" "k \<noteq> ''method''" "k \<noteq> ''params''" "k \<noteq> ''sessionId''"
    "k \<noteq> ''error''" "k \<noteq> ''result''"
    using assms by (auto simp: named_props_def)
  then show ?thesis
    using rest_other [OF assms, of "cmd_rest r"]
    by (simp add: stringify_response_def opt_prop_def map_add_def split: option.splits)
qed

lemma jget_stringify_event:
  "jget (stringify_event e) ''id'' = None"
  "jget (stringify_event e) ''method'' = Some (JString (ev_method e))"
  "jget (stringify_event e) ''params'' = ev_params e"
  "jget (stringify_event e) ''sessionId'' = map_option JString (ev_sessionId e)"
  "jget (stringify_event e) ''result'' = None"
  "jget (stringify_event e) ''error'' = None"
  by (simp_all add: stringify_event_def opt_prop_def map_add_def split: option.splits)

section \<open>Host event relay\<close>

text \<open>
  Claim C6. A debugging event of the host whose source tab is the adapter's target tab is
  wrapped with the adapter's session identifier and handed to the message callback at
  once: the call is added to the outbox and no timer is armed. An event of another tab
  leaves the world as it is: no callback is called.
\<close>

theorem host_event_relay:
  "(tabId source = ti_tabId (target w) \<longrightarrow> onmessage w \<longrightarrow>
      onEvent w source method params =
        w\<lparr>outbox := outbox w @
          [OnMessage (JObject ([(''method'', JString method)] @ opt_prop ''params'' params
             @ [(''sessionId'', JString (sessionId w))]))]\<rparr>)
   \<and> (tabId source \<noteq> ti_tabId (target w) \<longrightarrow> onEvent w source method params = w)"
  by (simp add: onEvent_def emit_def stringify_event_def opt_prop_def)

theorem host_event_relay_witness:
  "tabId \<lparr>tabId = Some 7\<rparr> = ti_tabId (target demo) \<and> onmessage demo
   \<and> onEvent demo \<lparr>tabId = Some 7\<rparr> ''Page.loadEventFired'' None =
       demo\<lparr>outbox :=
         [OnMessage (JObject [(''method'', JString ''Page.loadEventFired''),
            (''sessionId'', JString ''A1'')])]\<rparr>
   \<and> tabId \<lparr>tabId = Some 8\<rparr> \<noteq> ti_tabId (target demo)
   \<and> onEvent demo \<lparr>tabId = Some 8\<rparr> ''Page.loadEventFired'' None = demo"
  using host_event_relay [of "\<lparr>tabId = Some 7\<rparr>" demo "''Page.loadEventFired''" None]
    host_event_relay [of "\<lparr>tabId = Some 8\<rparr>" demo "''Page.loadEventFired''" None]
  by (simp add: demo_def constructor_def tab7_def opt_prop_def)

section \<open>Delivery without a message callback\<close>

text \<open>
  Claim C10. While the client has installed no message callback, handing over an event
  (\<open>_emit\<close>) and the timer callback that hands over a response both leave the world as it
  is, whatever the message: nothing is called, nothing is raised (neither function has a
  failing outcome), no field changes. The same holds for the relay of a host event and
  for the three synthetic events, which all go through \<open>_emit\<close>.
\<close>

theorem unset_onmessage_drops:
  assumes "\<not> onmessage w"
  shows "emit w event = w \<and> deliver w response = w \<and> run_task w (Deliver response) = w
    \<and> onEvent w source method params = w
    \<and> emitTargetCreated w = w \<and> emitTargetAttached w = w \<and> emitTargetDetached w = w"
  using assms
  by (simp add: emit_def deliver_def run_task_def onEvent_def emitTargetCreated_def
      emitTargetAttached_def emitTargetDetached_def)

theorem unset_onmessage_drops_witness:
  "\<not> onmessage (constructor tab7)
   \<and> emit (constructor tab7)
       \<lparr>ev_method = ''Page.loadEventFired'', ev_params = None, ev_sessionId = Some ''A1''\<rparr>
     = constructor tab7
   \<and> run_task (constructor tab7)
       (Deliver (spread \<lparr>cmd_id = 1, cmd_method = ''Page.enable'', cmd_params = None,
          cmd_sessionId = None, cmd_rest = []\<rparr> None (Some (JObject []))))
     = constructor tab7"
  using unset_onmessage_drops [of "constructor tab7"]
  by (simp add: constructor_def)


section \<open>Forwarded commands\<close>

text \<open>The definitions that evaluating a run unfolds.\<close>

lemmas eval_defs = demo_def constructor_def tab7_def run_def step_def send_def
      spread_error_def named_props_def
      settle_def send_settled_def delaySend_def setTimeout_def fire_def run_task_def deliver_def
      stringify_response_def stringify_event_def spread_def opt_prop_def error_json_def
      targetCommands_def target_command_def handleTargetCommand_def emit_def
      emitTargetCreated_def emitTargetAttached_def emitTargetDetached_def closeTarget_def
      close_def close_settled_def onEvent_def onDetach_def target_json_def

lemma deliver_listening:
  "onmessage u \<Longrightarrow>
     run_task u (Deliver r) = u\<lparr>outbox := outbox u @ [OnMessage (stringify_response r)]\<rparr>"
  by (simp add: run_task_def deliver_def)

text \<open>
  What a forwarded command is answered with. \<open>send\<close> places the call of \<open>sendCommand\<close>
  among the awaited ones; when the call settles, one timer is armed, due after the delay,
  for a response that echoes the \<open>id\<close>, the \<open>method\<close> and the \<open>params\<close> of the request. When
  \<open>sendCommand\<close> resolved, both \<open>error\<close> and \<open>result\<close> are set: the response holds no error,
  and as result the value resolved to. When it rejected, only \<open>error\<close> is set: the
  response holds the failure's message, and as result whatever the request holds under
  that name.
\<close>

lemma forwarded_reply:
  assumes "cmd_method command \<notin> set targetCommands"
  shows "send w (Inr command) = Inr (w\<lparr>awaiting := awaiting w @ [SendCommand command]\<rparr>)
    \<and> (\<exists>r. send_settled v command outcome =
              v\<lparr>timers := timers v @ [(clock v + delay v, Deliver r)]\<rparr>
          \<and> jget (stringify_response r) ''id'' = Some (JNumber (cmd_id command))
          \<and> jget (stringify_response r) ''method'' = Some (JString (cmd_method command))
          \<and> jget (stringify_response r) ''params'' = cmd_params command
          \<and> (case outcome of
                Inr res \<Rightarrow>
                  jget (stringify_response r) ''result'' = res
                  \<and> jget (stringify_response r) ''error'' = None
              | Inl err \<Rightarrow>
                  jget (stringify_response r) ''result'' = map_of (cmd_rest command) ''result''
                  \<and> jget (stringify_response r) ''error'' =
                      Some (JObject (opt_prop ''message''
                        (map_option JString (thrown_message err))))))"
proof (intro conjI)
  show "send w (Inr command) = Inr (w\<lparr>awaiting := awaiting w @ [SendCommand command]\<rparr>)"
    using assms by (simp add: send_def)
next
  show "\<exists>r. send_settled v command outcome =
              v\<lparr>timers := timers v @ [(clock v + delay v, Deliver r)]\<rparr>
          \<and> jget (stringify_response r) ''id'' = Some (JNumber (cmd_id command))
          \<and> jget (stringify_response r) ''method'' = Some (JString (cmd_method command))
          \<and> jget (stringify_response r) ''params'' = cmd_params command
          \<and> (case outcome of
                Inr res \<Rightarrow>
                  jget (stringify_response r) ''result'' = res
                  \<and> jget (stringify_response r) ''error'' = None
              | Inl err \<Rightarrow>
                  jget (stringify_response r) ''result'' = map_of (cmd_rest command) ''result''
                  \<and> jget (stringify_response r) ''error'' =
                      Some (JObject (opt_prop ''message''
                        (map_option JString (thrown_message err)))))"
  proof (cases outcome)
    case (Inr res)
    then show ?thesis
      by (intro exI [of _ "spread command None res"])
        (simp add: send_settled_def delaySend_def setTimeout_def
          jget_stringify_response spread_def)
  next
    case (Inl err)
    then show ?thesis
      by (intro exI [of _ "spread_error command \<lparr>message = thrown_message err\<rparr>"])
        (simp add: send_settled_def delaySend_def setTimeout_def
          jget_stringify_response spread_error_def error_json_def)
  qed
qed

text \<open>
  Claim C1. A forwarded command is answered, when \<open>sendCommand\<close> resolves, with the \<open>id\<close>,
  the \<open>method\<close> and the \<open>params\<close> of the request and the value resolved to as \<open>result\<close>;
  when \<open>sendCommand\<close> rejects, with the same fields, the failure's message as
  \<open>error.message\<close>, and no \<open>result\<close>. The \<open>catch\<close> branch of \<open>send\<close> departs from the last
  part: it spreads the request and sets \<open>error\<close> only, where the \<open>try\<close> branch and
  \<open>_handleTargetCommand\<close> set both \<open>error\<close> and \<open>result\<close>. The request \<open>stale_navigate\<close>
  holds an \<open>error\<close> and a \<open>result\<close> of its own. When \<open>sendCommand\<close> rejects, the client is
  handed a response that holds the failure as \<open>error\<close> and the request's own \<open>result\<close>;
  when \<open>sendCommand\<close> resolves, the response holds the value resolved to as \<open>result\<close> and
  nothing of the request's \<open>error\<close>.
\<close>

theorem forwarded_failure_keeps_result:
  "cmd_method stale_navigate \<notin> set targetCommands
   \<and> outbox (run demo [Send (Inr stale_navigate),
        Settle 0 (Inl (Thrown (Some ''No tab with given id''))), Fire]) =
      [OnMessage (JObject [(''id'', JNumber 2), (''method'', JString ''Page.navigate''),
         (''params'', JObject [(''url'', JString ''https://example.com'')]),
         (''sessionId'', JString ''A1''),
         (''error'', JObject [(''message'', JString ''No tab with given id'')]),
         (''result'', JObject [(''stale'', JBool True)])])]
   \<and> outbox (run demo [Send (Inr stale_navigate),
        Settle 0 (Inr (Some (JObject [(''frameId'', JString ''F1'')]))), Fire]) =
      [OnMessage (JObject [(''id'', JNumber 2), (''method'', JString ''Page.navigate''),
         (''params'', JObject [(''url'', JString ''https://example.com'')]),
         (''sessionId'', JString ''A1''),
         (''result'', JObject [(''frameId'', JString ''F1'')])])]"
  by (simp add: eval_defs navigate_def stale_navigate_def)

section \<open>Emulated commands of the Target domain\<close>

lemma replies_spread: "replies (spread command None (Some v)) command v"
  by (simp add: replies_def jget_stringify_response spread_def)

lemma replies_spread_result:
  "replies ((spread command None x)\<lparr>result := Some v\<rparr>) command v"
  by (simp add: replies_def jget_stringify_response spread_def)

text \<open>
  Claim C3. The fixed results of the emulated methods. \<open>Target.getBrowserContexts\<close> is
  answered with \<open>{browserContextIds: []}\<close>. \<open>Target.attachToTarget\<close> is answered with
  \<open>{sessionId}\<close>, the adapter's session identifier, and hands the client (when it has
  installed the message callback) one \<open>Target.attachedToTarget\<close> event whose
  \<open>waitingForDebugger\<close> is false, at once. \<open>Target.activateTarget\<close> is answered with
  \<open>null\<close>. \<open>Target.closeTarget\<close> is answered with \<open>{success: true}\<close> and arms, before the
  timer of its reply and due at the same time (after the delay), a timer whose callback
  calls \<open>close\<close>. Each reply echoes the \<open>id\<close>, the \<open>method\<close> and the \<open>params\<close> of the
  request, holds no error, and is handed over by a timer due after the delay.
\<close>

theorem emulated_target_commands:
  "(cmd_method command = ''Target.getBrowserContexts'' \<longrightarrow>
      (\<exists>r. send w (Inr command) =
              Inr (w\<lparr>timers := timers w @ [(clock w + delay w, Deliver r)]\<rparr>)
         \<and> replies r command (JObject [(''browserContextIds'', JArray [])])))
   \<and> (cmd_method command = ''Target.attachToTarget'' \<longrightarrow> onmessage w \<longrightarrow>
      (\<exists>r. send w (Inr command) =
              Inr (w\<lparr>outbox := outbox w @
                     [OnMessage (JObject
                        [(''method'', JString ''Target.attachedToTarget''),
                         (''params'', JObject
                            [(''targetInfo'', target_json (target w)),
                             (''sessionId'', JString (sessionId w)),
                             (''waitingForDebugger'', JBool False)])])],
                   timers := timers w @ [(clock w + delay w, Deliver r)]\<rparr>)
         \<and> replies r command (JObject [(''sessionId'', JString (sessionId w))])))
   \<and> (cmd_method command = ''Target.activateTarget'' \<longrightarrow>
      (\<exists>r. send w (Inr command) =
              Inr (w\<lparr>timers := timers w @ [(clock w + delay w, Deliver r)]\<rparr>)
         \<and> replies r command JNull))
   \<and> (cmd_method command = ''Target.closeTarget'' \<longrightarrow>
      (\<exists>r. send w (Inr command) =
              Inr (w\<lparr>timers := timers w @
                     [(clock w + delay w, CloseTask), (clock w + delay w, Deliver r)]\<rparr>)
         \<and> replies r command (JObject [(''success'', JBool True)])))
   \<and> run_task u CloseTask = close u
   \<and> (onmessage u \<longrightarrow>
        run_task u (Deliver r') = u\<lparr>outbox := outbox u @ [OnMessage (stringify_response r')]\<rparr>)"
proof (intro conjI impI)
  assume "cmd_method command = ''Target.getBrowserContexts''"
  then show "\<exists>r. send w (Inr command) =
              Inr (w\<lparr>timers := timers w @ [(clock w + delay w, Deliver r)]\<rparr>)
         \<and> replies r command (JObject [(''browserContextIds'', JArray [])])"
    by (intro exI [of _ "(spread command None (Some (JObject [])))
          \<lparr>result := Some (JObject [(''browserContextIds'', JArray [])])\<rparr>"])
      (simp add: send_def targetCommands_def handleTargetCommand_def delaySend_def
        setTimeout_def replies_spread_result)
next
  assume "cmd_method command = ''Target.attachToTarget''" and "onmessage w"
  then show "\<exists>r. send w (Inr command) =
              Inr (w\<lparr>outbox := outbox w @
                     [OnMessage (JObject
                        [(''method'', JString ''Target.attachedToTarget''),
                         (''params'', JObject
                            [(''targetInfo'', target_json (target w)),
                             (''sessionId'', JString (sessionId w)),
                             (''waitingForDebugger'', JBool False)])])],
                   timers := timers w @ [(clock w + delay w, Deliver r)]\<rparr>)
         \<and> replies r command (JObject [(''sessionId'', JString (sessionId w))])"
    by (intro exI [of _ "(spread command None (Some (JObject [])))
          \<lparr>result := Some (JObject [(''sessionId'', JString (sessionId w))])\<rparr>"])
      (simp add: send_def targetCommands_def handleTargetCommand_def delaySend_def
        setTimeout_def replies_spread_result emitTargetAttached_def emit_def
        stringify_event_def opt_prop_def)
next
  assume "cmd_method command = ''Target.activateTarget''"
  then show "\<exists>r. send w (Inr command) =
              Inr (w\<lparr>timers := timers w @ [(clock w + delay w, Deliver r)]\<rparr>)
         \<and> replies r command JNull"
    by (intro exI [of _ "(spread command None (Some (JObject [])))\<lparr>result := Some JNull\<rparr>"])
      (simp add: send_def targetCommands_def handleTargetCommand_def delaySend_def
        setTimeout_def replies_spread_result)
next
  assume "cmd_method command = ''Target.closeTarget''"
  then show "\<exists>r. send w (Inr command) =
              Inr (w\<lparr>timers := timers w @
                     [(clock w + delay w, CloseTask), (clock w + delay w, Deliver r)]\<rparr>)
         \<and> replies r command (JObject [(''success'', JBool True)])"
    by (intro exI [of _ "(spread command None (Some (JObject [])))
          \<lparr>result := Some (JObject [(''success'', JBool True)])\<rparr>"])
      (simp add: send_def targetCommands_def handleTargetCommand_def delaySend_def
        setTimeout_def replies_spread_result)
next
  show "run_task u CloseTask = close u"
    by (simp add: run_task_def)
next
  assume "onmessage u"
  then show "run_task u (Deliver r') =
      u\<lparr>outbox := outbox u @ [OnMessage (stringify_response r')]\<rparr>"
    by (rule deliver_listening)
qed

text \<open>The four commands sent to the adapter of the running example, timers fired.\<close>

theorem emulated_target_commands_witness:
  "cmd_method (target_command 1 ''Target.getBrowserContexts'') = ''Target.getBrowserContexts''
   \<and> outbox (run demo [Send (Inr (target_command 1 ''Target.getBrowserContexts'')), Fire]) =
       [OnMessage (JObject [(''id'', JNumber 1),
          (''method'', JString ''Target.getBrowserContexts''), (''params'', JObject []),
          (''result'', JObject [(''browserContextIds'', JArray [])])])]
   \<and> onmessage demo
   \<and> outbox (run demo [Send (Inr (target_command 3 ''Target.attachToTarget'')), Fire]) =
       [OnMessage (JObject [(''method'', JString ''Target.attachedToTarget''),
          (''params'', JObject
             [(''targetInfo'', JObject [(''id'', JString ''A1''), (''tabId'', JNumber 7),
                 (''attached'', JBool True), (''targetId'', JString ''A1''),
                 (''canAccessOpener'', JBool False)]),
              (''sessionId'', JString ''A1''),
              (''waitingForDebugger'', JBool False)])]),
        OnMessage (JObject [(''id'', JNumber 3),
          (''method'', JString ''Target.attachToTarget''), (''params'', JObject []),
          (''result'', JObject [(''sessionId'', JString ''A1'')])])]
   \<and> outbox (run demo [Send (Inr (target_command 4 ''Target.activateTarget'')), Fire]) =
       [OnMessage (JObject [(''id'', JNumber 4),
          (''method'', JString ''Target.activateTarget''), (''params'', JObject []),
          (''result'', JNull)])]
   \<and> run demo [Send (Inr (target_command 5 ''Target.closeTarget'')), Fire, Fire] =
       demo\<lparr>clock := 40, awaiting := [Detach],
         outbox := [OnMessage (JObject [(''id'', JNumber 5),
          (''method'', JString ''Target.closeTarget''), (''params'', JObject []),
          (''result'', JObject [(''success'', JBool True)])])]\<rparr>"
  using emulated_target_commands [of "target_command 1 ''Target.getBrowserContexts''" demo]
    emulated_target_commands [of "target_command 3 ''Target.attachToTarget''" demo]
  by (simp add: eval_defs)

text \<open>
  Claim C4. \<open>Target.setDiscoverTargets\<close>, sent while the client has installed the message
  callback, hands over exactly one \<open>Target.targetCreated\<close> event, whose \<open>params\<close> hold the
  adapter's target descriptor as \<open>targetInfo\<close>, and arms one timer, due after the delay,
  for the command's own reply, whose \<open>result\<close> is \<open>null\<close>.
\<close>

theorem discover_targets:
  "cmd_method command = ''Target.setDiscoverTargets'' \<longrightarrow> onmessage w \<longrightarrow>
      (\<exists>r. send w (Inr command) =
              Inr (w\<lparr>outbox := outbox w @
                     [OnMessage (JObject
                        [(''method'', JString ''Target.targetCreated''),
                         (''params'', JObject [(''targetInfo'', target_json (target w))])])],
                   timers := timers w @ [(clock w + delay w, Deliver r)]\<rparr>)
         \<and> replies r command JNull
         \<and> (\<forall>u. onmessage u \<longrightarrow>
               run_task u (Deliver r) =
                 u\<lparr>outbox := outbox u @ [OnMessage (stringify_response r)]\<rparr>))"
  by (intro impI exI [of _ "(spread command None (Some (JObject [])))\<lparr>result := Some JNull\<rparr>"])
    (simp add: send_def targetCommands_def handleTargetCommand_def delaySend_def
      setTimeout_def replies_spread_result emitTargetCreated_def emit_def
      stringify_event_def opt_prop_def deliver_listening)

theorem discover_targets_witness:
  "cmd_method (target_command 2 ''Target.setDiscoverTargets'') = ''Target.setDiscoverTargets''
   \<and> onmessage demo
   \<and> outbox (run demo [Send (Inr (target_command 2 ''Target.setDiscoverTargets'')), Fire]) =
       [OnMessage (JObject [(''method'', JString ''Target.targetCreated''),
          (''params'', JObject
             [(''targetInfo'', JObject [(''id'', JString ''A1''), (''tabId'', JNumber 7),
                 (''attached'', JBool True), (''targetId'', JString ''A1''),
                 (''canAccessOpener'', JBool False)])])]),
        OnMessage (JObject [(''id'', JNumber 2),
          (''method'', JString ''Target.setDiscoverTargets''), (''params'', JObject []),
          (''result'', JNull)])]"
  using discover_targets [of "target_command 2 ''Target.setDiscoverTargets''" demo]
  by (simp add: eval_defs)

section \<open>Creating an adapter\<close>

lemma find_filter_hd:
  "List.find P xs = (case filter P xs of [] \<Rightarrow> None | x # _ \<Rightarrow> Some x)"
  by (induction xs) auto

text \<open>
  Claim C9. \<open>create\<close> awaits \<open>attach\<close> once and, when it rejects, rejects with the same
  value. When \<open>attach\<close> resolves and no entry of the list that \<open>getTargets\<close> resolves to
  is attached with the tab's id, \<open>create\<close> rejects with the error \<open>target not found\<close>.
  When there is such an entry, the adapter is built from the first one: its session
  identifier is that entry's \<open>id\<close>, its descriptor is the entry with \<open>targetId\<close> set to the
  \<open>id\<close> and \<open>canAccessOpener\<close> set to false, and its debuggee is the tab.
\<close>

theorem create_outcomes:
  "(attach = Some e \<longrightarrow> create attach getTargets tab fs nft cur = Inl e)
   \<and> (attach = None \<longrightarrow> getTargets = Inr targets \<longrightarrow>
        \<not> (\<exists>t \<in> set targets. ti_tabId t = Some tab \<and> ti_attached t) \<longrightarrow>
        create attach getTargets tab fs nft cur = Inl (Thrown (Some ''target not found'')))
   \<and> (attach = None \<longrightarrow> getTargets = Inr targets \<longrightarrow>
        List.find (\<lambda>t. ti_attached t \<and> ti_tabId t = Some tab) targets = Some t \<longrightarrow>
        (\<exists>w f. create attach getTargets tab fs nft cur = Inr (w, f)
           \<and> sessionId w = ti_id t
           \<and> target w = t\<lparr>ti_targetId := Some (ti_id t), ti_canAccessOpener := Some False\<rparr>
           \<and> ti_canAccessOpener (target w) = Some False
           \<and> debugee w = \<lparr>tabId = Some tab\<rparr>))"
proof (intro conjI impI)
  assume "attach = Some e"
  then show "create attach getTargets tab fs nft cur = Inl e"
    by (simp add: create_def)
next
  assume a: "attach = None" "getTargets = Inr targets"
    and n: "\<not> (\<exists>t \<in> set targets. ti_tabId t = Some tab \<and> ti_attached t)"
  from n have "filter (\<lambda>t. ti_attached t \<and> ti_tabId t = Some tab) targets = []"
    by (auto simp: filter_empty_conv)
  with a show "create attach getTargets tab fs nft cur = Inl (Thrown (Some ''target not found''))"
    by (simp add: create_def getTargetInfo_def)
next
  assume a: "attach = None" "getTargets = Inr targets"
    and f: "List.find (\<lambda>t. ti_attached t \<and> ti_tabId t = Some tab) targets = Some t"
  from f obtain rest where
    flt: "filter (\<lambda>t. ti_attached t \<and> ti_tabId t = Some tab) targets = t # rest"
    by (auto simp: find_filter_hd split: list.splits)
  from f have "ti_tabId t = Some tab"
    by (auto simp: find_Some_iff)
  with a flt show "\<exists>w f. create attach getTargets tab fs nft cur = Inr (w, f)
           \<and> sessionId w = ti_id t
           \<and> target w = t\<lparr>ti_targetId := Some (ti_id t), ti_canAccessOpener := Some False\<rparr>
           \<and> ti_canAccessOpener (target w) = Some False
           \<and> debugee w = \<lparr>tabId = Some tab\<rparr>"
    by (simp add: create_def getTargetInfo_def constructor_def)
qed

theorem create_outcomes_witness:
  "create (Some (Thrown (Some ''Cannot access a chrome:// URL''))) (Inr [tab7]) 7
      (None :: unit option) False Native = Inl (Thrown (Some ''Cannot access a chrome:// URL''))
   \<and> create None (Inr [tab7\<lparr>ti_attached := False\<rparr>, tab7\<lparr>ti_tabId := Some 8\<rparr>]) 7
      (None :: unit option) False Native = Inl (Thrown (Some ''target not found''))
   \<and> List.find (\<lambda>t. ti_attached t \<and> ti_tabId t = Some 7) [tab7\<lparr>ti_tabId := Some 8\<rparr>, tab7]
       = Some tab7
   \<and> create None (Inr [tab7\<lparr>ti_tabId := Some 8\<rparr>, tab7]) 7 (None :: unit option) False Native
       = Inr (demo\<lparr>onmessage := False, onclose := False\<rparr>, Native)
   \<and> sessionId demo = ''A1''"
  using create_outcomes [of "Some (Thrown (Some ''Cannot access a chrome:// URL''))"
      "Thrown (Some ''Cannot access a chrome:// URL'')" "Inr [tab7]" 7 None False Native]
    create_outcomes [of None _ "Inr [tab7\<lparr>ti_tabId := Some 8\<rparr>, tab7]" 7 None False
      "Native :: unit function_constructor" "[tab7\<lparr>ti_tabId := Some 8\<rparr>, tab7]" tab7]
  by (simp add: create_def getTargetInfo_def initialize_def demo_def constructor_def tab7_def)


section \<open>Close and teardown\<close>

lemma closeTarget_listening:
  "onmessage w \<Longrightarrow> onclose w \<Longrightarrow>
     closeTarget w =
       w\<lparr>outbox := outbox w @
         [OnMessage (JObject
            [(''method'', JString ''Target.detachedFromTarget''),
             (''params'', JObject
                [(''targetId'', JString (ti_id (target w))),
                 (''sessionId'', JString (sessionId w))])]),
          OnClose]\<rparr>"
  by (simp add: closeTarget_def emitTargetDetached_def emit_def stringify_event_def
      opt_prop_def Let_def)

text \<open>
  Claim C8, as the specification states it, fails on the code: \<open>close\<close> awaits \<open>detach\<close>
  with no handler around it. The adapter of the running example is closed once, and
  \<open>detach\<close> resolves: the teardown runs. It is closed a second time, and \<open>detach\<close> rejects,
  as the host does for a tab it is no longer attached to: the second \<open>close\<close> rejects
  with that failure, and the world is what it was before the second call.
\<close>

theorem close_rejects_counterexample:
  "close_settled (run demo [Close, Settle 0 (Inr None)])
      (Some (Thrown (Some ''Debugger is not attached to the tab with id: 7.'')))
     = Inl (Thrown (Some ''Debugger is not attached to the tab with id: 7.''))
   \<and> outbox (run demo [Close, Settle 0 (Inr None)]) =
       [OnMessage (JObject
          [(''method'', JString ''Target.detachedFromTarget''),
           (''params'', JObject
              [(''targetId'', JString ''A1''), (''sessionId'', JString ''A1'')])]),
        OnClose]
   \<and> run demo [Close, Settle 0 (Inr None), Close,
        Settle 0 (Inl (Thrown (Some ''Debugger is not attached to the tab with id: 7.'')))]
     = run demo [Close, Settle 0 (Inr None)]"
  by (simp add: eval_defs)

text \<open>
  Claim C8, amended. \<open>close\<close> awaits the facade's \<open>detach\<close>. When \<open>detach\<close> rejects,
  \<open>close\<close> rejects with the same value and runs no teardown. When \<open>detach\<close> resolves,
  \<open>close\<close> runs the teardown: the detach event, handed over when a message callback is
  installed, then the close callback, called when one is installed. A second \<open>close\<close>
  rejects exactly when the facade rejects its \<open>detach\<close>.
\<close>

theorem close_outcomes:
  "close w = w\<lparr>awaiting := awaiting w @ [Detach]\<rparr>
   \<and> close_settled w (Some e) = Inl e
   \<and> close_settled w None =
       Inr (w\<lparr>outbox := outbox w
              @ (if onmessage w then
                   [OnMessage (JObject
                      [(''method'', JString ''Target.detachedFromTarget''),
                       (''params'', JObject
                          [(''targetId'', JString (ti_id (target w))),
                           (''sessionId'', JString (sessionId w))])])]
                 else [])
              @ (if onclose w then [OnClose] else [])\<rparr>)"
  by (simp add: close_def close_settled_def closeTarget_def emitTargetDetached_def emit_def
      stringify_event_def opt_prop_def Let_def)

theorem close_outcomes_witness:
  "close demo = demo\<lparr>awaiting := [Detach]\<rparr>
   \<and> close_settled demo (Some (Thrown (Some ''Debugger is not attached to the tab with id: 7.'')))
       = Inl (Thrown (Some ''Debugger is not attached to the tab with id: 7.''))
   \<and> close_settled demo None =
       Inr (demo\<lparr>outbox :=
         [OnMessage (JObject
            [(''method'', JString ''Target.detachedFromTarget''),
             (''params'', JObject
                [(''targetId'', JString ''A1''), (''sessionId'', JString ''A1'')])]),
          OnClose]\<rparr>)"
  using close_outcomes [of demo "Thrown (Some ''Debugger is not attached to the tab with id: 7.'')"]
  by (simp add: demo_def constructor_def tab7_def)

text \<open>
  Claim C7, as the specification states it, fails on the code: the adapter keeps no
  record of having closed, and its listeners stay registered. Two detach notifications of
  the host for the target tab call the close callback twice. And a \<open>close\<close> that follows
  \<open>Target.closeTarget\<close> and its armed \<open>close\<close>, with a facade whose \<open>detach\<close> resolves both
  times, hands over the detach event twice.
\<close>

theorem close_callback_twice_counterexample:
  "count_list (outbox (run demo [HostDetach \<lparr>tabId = Some 7\<rparr>, HostDetach \<lparr>tabId = Some 7\<rparr>]))
      OnClose = 2
   \<and> events_named ''Target.detachedFromTarget''
       (outbox (run demo [Send (Inr (target_command 5 ''Target.closeTarget'')), Fire, Fire,
          Settle 0 (Inr None), Close, Settle 0 (Inr None)])) = 2"
  by (simp add: eval_defs events_named_def)

text \<open>
  Claim C7, amended. With both callbacks installed, a detach notification of the host
  for the target tab hands over exactly one \<open>Target.detachedFromTarget\<close> event and then
  calls the close callback exactly once; a notification for another tab does nothing. A
  \<open>close\<close> whose \<open>detach\<close> resolves does the same, each time: the close callback is called
  once for each teardown, not once for the adapter's lifetime. A \<open>close\<close> whose \<open>detach\<close>
  rejects hands over nothing. So after \<open>Target.closeTarget\<close>, its armed \<open>close\<close> and the
  teardown of that, a further \<open>close\<close> hands over no second detach event when the facade
  rejects the \<open>detach\<close> of a target that is already detached.
\<close>

theorem teardown:
  "(tabId source = ti_tabId (target w) \<longrightarrow> onmessage w \<longrightarrow> onclose w \<longrightarrow>
      onDetach w source =
        w\<lparr>outbox := outbox w @
          [OnMessage (JObject
             [(''method'', JString ''Target.detachedFromTarget''),
              (''params'', JObject
                 [(''targetId'', JString (ti_id (target w))),
                  (''sessionId'', JString (sessionId w))])]),
           OnClose]\<rparr>)
   \<and> (tabId source \<noteq> ti_tabId (target w) \<longrightarrow> onDetach w source = w)
   \<and> (onmessage w \<longrightarrow> onclose w \<longrightarrow>
      close_settled w None =
        Inr (w\<lparr>outbox := outbox w @
          [OnMessage (JObject
             [(''method'', JString ''Target.detachedFromTarget''),
              (''params'', JObject
                 [(''targetId'', JString (ti_id (target w))),
                  (''sessionId'', JString (sessionId w))])]),
           OnClose]\<rparr>))
   \<and> close_settled w (Some e) = Inl e
   \<and> (cmd_method command = ''Target.closeTarget'' \<longrightarrow> onmessage w \<longrightarrow> onclose w \<longrightarrow>
        timers w = [] \<longrightarrow> awaiting w = [] \<longrightarrow>
        events_named ''Target.detachedFromTarget''
          (outbox (run w [Send (Inr command), Fire, Fire, Settle 0 (Inr v), Close,
             Settle 0 (Inl e)]))
        = Suc (events_named ''Target.detachedFromTarget'' (outbox w))
        \<and> count_list (outbox (run w [Send (Inr command), Fire, Fire, Settle 0 (Inr v), Close,
             Settle 0 (Inl e)])) OnClose
        = Suc (count_list (outbox w) OnClose))"
proof (intro conjI impI)
  assume "tabId source = ti_tabId (target w)" "onmessage w" "onclose w"
  then show "onDetach w source =
        w\<lparr>outbox := outbox w @
          [OnMessage (JObject
             [(''method'', JString ''Target.detachedFromTarget''),
              (''params'', JObject
                 [(''targetId'', JString (ti_id (target w))),
                  (''sessionId'', JString (sessionId w))])]),
           OnClose]\<rparr>"
    by (simp add: onDetach_def closeTarget_listening)
next
  assume "tabId source \<noteq> ti_tabId (target w)"
  then show "onDetach w source = w"
    by (simp add: onDetach_def)
next
  assume "onmessage w" "onclose w"
  then show "close_settled w None =
        Inr (w\<lparr>outbox := outbox w @
          [OnMessage (JObject
             [(''method'', JString ''Target.detachedFromTarget''),
              (''params'', JObject
                 [(''targetId'', JString (ti_id (target w))),
                  (''sessionId'', JString (sessionId w))])]),
           OnClose]\<rparr>)"
    by (simp add: close_settled_def closeTarget_listening)
next
  show "close_settled w (Some e) = Inl e"
    by (simp add: close_settled_def)
next
  assume h: "cmd_method command = ''Target.closeTarget''" "onmessage w" "onclose w"
    "timers w = []" "awaiting w = []"
  let ?r = "(spread command None (Some (JObject [])))
      \<lparr>result := Some (JObject [(''success'', JBool True)])\<rparr>"
  have out: "outbox (run w [Send (Inr command), Fire, Fire, Settle 0 (Inr v), Close,
             Settle 0 (Inl e)]) =
     outbox w @ [OnMessage (stringify_response ?r),
        OnMessage (JObject
             [(''method'', JString ''Target.detachedFromTarget''),
              (''params'', JObject
                 [(''targetId'', JString (ti_id (target w))),
                  (''sessionId'', JString (sessionId w))])]),
        OnClose]"
    using h
    by (simp add: run_def step_def send_def targetCommands_def handleTargetCommand_def
        delaySend_def setTimeout_def fire_def run_task_def deliver_def close_def settle_def
        close_settled_def closeTarget_def emitTargetDetached_def emit_def stringify_event_def
        opt_prop_def Let_def)
  show "events_named ''Target.detachedFromTarget''
          (outbox (run w [Send (Inr command), Fire, Fire, Settle 0 (Inr v), Close,
             Settle 0 (Inl e)]))
        = Suc (events_named ''Target.detachedFromTarget'' (outbox w))"
    unfolding out by (simp add: events_named_def jget_stringify_response)
  show "count_list (outbox (run w [Send (Inr command), Fire, Fire, Settle 0 (Inr v), Close,
             Settle 0 (Inl e)])) OnClose
        = Suc (count_list (outbox w) OnClose)"
    unfolding out by simp
qed

theorem teardown_witness:
  "tabId \<lparr>tabId = Some 7\<rparr> = ti_tabId (target demo) \<and> onmessage demo \<and> onclose demo
   \<and> onDetach demo \<lparr>tabId = Some 7\<rparr> =
       demo\<lparr>outbox :=
         [OnMessage (JObject
            [(''method'', JString ''Target.detachedFromTarget''),
             (''params'', JObject
                [(''targetId'', JString ''A1''), (''sessionId'', JString ''A1'')])]),
          OnClose]\<rparr>
   \<and> onDetach demo \<lparr>tabId = Some 8\<rparr> = demo
   \<and> cmd_method (target_command 5 ''Target.closeTarget'') = ''Target.closeTarget''
   \<and> timers demo = [] \<and> awaiting demo = []
   \<and> outbox (run demo [Send (Inr (target_command 5 ''Target.closeTarget'')), Fire, Fire,
        Settle 0 (Inr None), Close,
        Settle 0 (Inl (Thrown (Some ''Debugger is not attached to the tab with id: 7.'')))]) =
       [OnMessage (JObject [(''id'', JNumber 5),
          (''method'', JString ''Target.closeTarget''), (''params'', JObject []),
          (''result'', JObject [(''success'', JBool True)])]),
        OnMessage (JObject
            [(''method'', JString ''Target.detachedFromTarget''),
             (''params'', JObject
                [(''targetId'', JString ''A1''), (''sessionId'', JString ''A1'')])]),
        OnClose]"
  using teardown [of "\<lparr>tabId = Some 7\<rparr>" demo _ "target_command 5 ''Target.closeTarget''"]
    teardown [of "\<lparr>tabId = Some 8\<rparr>" demo]
  by (simp add: eval_defs)

section \<open>The session identifier in outbound messages\<close>

text \<open>
  Claim C5, as the specification states it, fails on the code. \<open>Target.setDiscoverTargets\<close>
  sent to the adapter of the running example, whose session identifier is \<open>A1\<close>: the
  client is handed the \<open>Target.targetCreated\<close> event and the reply, and neither holds a
  \<open>sessionId\<close>.
\<close>

theorem session_stamp_counterexample:
  "outbox (run demo [Send (Inr (target_command 2 ''Target.setDiscoverTargets'')), Fire]) =
       [OnMessage (JObject [(''method'', JString ''Target.targetCreated''),
          (''params'', JObject
             [(''targetInfo'', JObject [(''id'', JString ''A1''), (''tabId'', JNumber 7),
                 (''attached'', JBool True), (''targetId'', JString ''A1''),
                 (''canAccessOpener'', JBool False)])])]),
        OnMessage (JObject [(''id'', JNumber 2),
          (''method'', JString ''Target.setDiscoverTargets''), (''params'', JObject []),
          (''result'', JNull)])]
   \<and> sessionId demo = ''A1''
   \<and> jget (JObject [(''method'', JString ''Target.targetCreated''),
          (''params'', JObject
             [(''targetInfo'', JObject [(''id'', JString ''A1''), (''tabId'', JNumber 7),
                 (''attached'', JBool True), (''targetId'', JString ''A1''),
                 (''canAccessOpener'', JBool False)])])]) ''sessionId'' = None
   \<and> jget (JObject [(''id'', JNumber 2),
          (''method'', JString ''Target.setDiscoverTargets''), (''params'', JObject []),
          (''result'', JNull)]) ''sessionId'' = None"
  by (simp add: eval_defs)

lemma pending_responses_append:
  "pending_responses (ts @ us) = pending_responses ts @ pending_responses us"
  by (induction ts rule: pending_responses.induct) simp_all

text \<open>
  Claim C5, amended. An event of the host that the adapter relays holds, as \<open>sessionId\<close>,
  the adapter's session identifier. The three synthetic events hold no \<open>sessionId\<close> of
  their own; \<open>Target.attachedToTarget\<close> and \<open>Target.detachedFromTarget\<close> hold the adapter's
  session identifier inside their \<open>params\<close>. A response, emulated or forwarded, holds the
  \<open>sessionId\<close> of its request, and none when the request has none.
\<close>

theorem session_stamping:
  "(tabId source = ti_tabId (target w) \<longrightarrow> onmessage w \<longrightarrow>
      (\<exists>m. outbox (onEvent w source method params) = outbox w @ [OnMessage m]
         \<and> jget m ''sessionId'' = Some (JString (sessionId w))))
   \<and> (onmessage w \<longrightarrow>
      (\<exists>m. outbox (emitTargetCreated w) = outbox w @ [OnMessage m]
         \<and> jget m ''method'' = Some (JString ''Target.targetCreated'')
         \<and> jget m ''sessionId'' = None))
   \<and> (onmessage w \<longrightarrow>
      (\<exists>m p. outbox (emitTargetAttached w) = outbox w @ [OnMessage m]
         \<and> jget m ''method'' = Some (JString ''Target.attachedToTarget'')
         \<and> jget m ''sessionId'' = None
         \<and> jget m ''params'' = Some p
         \<and> jget p ''sessionId'' = Some (JString (sessionId w))))
   \<and> (onmessage w \<longrightarrow>
      (\<exists>m p. outbox (emitTargetDetached w) = outbox w @ [OnMessage m]
         \<and> jget m ''method'' = Some (JString ''Target.detachedFromTarget'')
         \<and> jget m ''sessionId'' = None
         \<and> jget m ''params'' = Some p
         \<and> jget p ''sessionId'' = Some (JString (sessionId w))))
   \<and> (cmd_method command \<in> set targetCommands \<longrightarrow>
      (\<exists>w' r. send w (Inr command) = Inr w'
         \<and> pending_responses (timers w') = pending_responses (timers w) @ [r]
         \<and> jget (stringify_response r) ''sessionId'' =
             map_option JString (cmd_sessionId command)))
   \<and> (\<exists>r. pending_responses (timers (send_settled w command outcome)) =
              pending_responses (timers w) @ [r]
         \<and> jget (stringify_response r) ''sessionId'' =
             map_option JString (cmd_sessionId command))"
proof (intro conjI impI)
  assume "tabId source = ti_tabId (target w)" "onmessage w"
  then show "\<exists>m. outbox (onEvent w source method params) = outbox w @ [OnMessage m]
         \<and> jget m ''sessionId'' = Some (JString (sessionId w))"
    by (simp add: onEvent_def emit_def jget_stringify_event)
next
  assume "onmessage w"
  then show "\<exists>m. outbox (emitTargetCreated w) = outbox w @ [OnMessage m]
         \<and> jget m ''method'' = Some (JString ''Target.targetCreated'')
         \<and> jget m ''sessionId'' = None"
    by (simp add: emitTargetCreated_def emit_def jget_stringify_event)
next
  assume "onmessage w"
  then show "\<exists>m p. outbox (emitTargetAttached w) = outbox w @ [OnMessage m]
         \<and> jget m ''method'' = Some (JString ''Target.attachedToTarget'')
         \<and> jget m ''sessionId'' = None
         \<and> jget m ''params'' = Some p
         \<and> jget p ''sessionId'' = Some (JString (sessionId w))"
    by (simp add: emitTargetAttached_def emit_def jget_stringify_event)
next
  assume "onmessage w"
  then show "\<exists>m p. outbox (emitTargetDetached w) = outbox w @ [OnMessage m]
         \<and> jget m ''method'' = Some (JString ''Target.detachedFromTarget'')
         \<and> jget m ''sessionId'' = None
         \<and> jget m ''params'' = Some p
         \<and> jget p ''sessionId'' = Some (JString (sessionId w))"
    by (simp add: emitTargetDetached_def emit_def jget_stringify_event)
next
  assume "cmd_method command \<in> set targetCommands"
  then show "\<exists>w' r. send w (Inr command) = Inr w'
         \<and> pending_responses (timers w') = pending_responses (timers w) @ [r]
         \<and> jget (stringify_response r) ''sessionId'' =
             map_option JString (cmd_sessionId command)"
    by (auto simp: send_def handleTargetCommand_def delaySend_def setTimeout_def
        pending_responses_append jget_stringify_response spread_def emitTargetCreated_def
        emitTargetAttached_def emit_def Let_def)
next
  show "\<exists>r. pending_responses (timers (send_settled w command outcome)) =
              pending_responses (timers w) @ [r]
         \<and> jget (stringify_response r) ''sessionId'' =
             map_option JString (cmd_sessionId command)"
    by (cases outcome)
      (simp_all add: send_settled_def delaySend_def setTimeout_def pending_responses_append
        jget_stringify_response spread_def spread_error_def)
qed

theorem session_stamping_witness:
  "tabId \<lparr>tabId = Some 7\<rparr> = ti_tabId (target demo) \<and> onmessage demo
   \<and> outbox (onEvent demo \<lparr>tabId = Some 7\<rparr> ''Page.loadEventFired'' None) =
       [OnMessage (JObject [(''method'', JString ''Page.loadEventFired''),
          (''sessionId'', JString ''A1'')])]
   \<and> cmd_method (target_command 3 ''Target.attachToTarget'') \<in> set targetCommands
   \<and> outbox (run demo [Send (Inr navigate), Settle 0 (Inr (Some (JObject []))), Fire]) =
       [OnMessage (JObject [(''id'', JNumber 2), (''method'', JString ''Page.navigate''),
         (''params'', JObject [(''url'', JString ''https://example.com'')]),
         (''sessionId'', JString ''A1''), (''result'', JObject [])])]
   \<and> outbox (run demo [Send (Inr (navigate\<lparr>cmd_sessionId := Some ''B2''\<rparr>)),
        Settle 0 (Inr (Some (JObject []))), Fire]) =
       [OnMessage (JObject [(''id'', JNumber 2), (''method'', JString ''Page.navigate''),
         (''params'', JObject [(''url'', JString ''https://example.com'')]),
         (''sessionId'', JString ''B2''), (''result'', JObject [])])]"
  using session_stamping [of "\<lparr>tabId = Some 7\<rparr>" demo "''Page.loadEventFired''" None
      "target_command 3 ''Target.attachToTarget''"]
  by (simp add: eval_defs navigate_def)



section \<open>Result or error, in every response\<close>

























end
